theory Spec2Isabelle
  imports Complex_Main
begin

section \<open>The Daikin climate adapter (components/daikinone/climate.py)\<close>

subsection \<open>Values, exceptions and the host's declarations\<close>

text \<open>
  Python values that travel through the adapter unchanged: the \<open>power\<close> field, the
  setpoints, the \<open>temperature\<close> keyword argument and the second argument of the
  vendor's \<open>set_device_value\<close>. The adapter never computes with a float, it only
  hands it on, so the payload of \<open>PFloat\<close> is a real number.
\<close>

datatype pyval = PNone | PBool bool | PInt int | PFloat real | PStr string

text \<open>
  What a call can raise. \<open>KeyError\<close> carries the missing key. \<open>UpdateFailed\<close> carries its
  message and its \<open>__context__\<close>: the exception that was being handled when it was
  raised, which Python attaches to an exception raised inside an \<open>except\<close> block, and
  None when it is raised outside one. No \<open>raise\<close> of the adapter has a \<open>from\<close> clause,
  so \<open>__cause__\<close> is always None and is not recorded. The vendor's setter is outside this repository: \<open>VendorException n\<close> stands for
  an instance of Python's \<open>Exception\<close> raised there, \<open>n\<close> naming the cause, and
  \<open>VendorBaseException n\<close> for a \<open>BaseException\<close> that is not an \<open>Exception\<close>.
\<close>

datatype raised =
    KeyError int
  | ValueError
  | IndexError
  | UpdateFailed string "raised option"
  | VendorException nat
  | VendorBaseException nat

text \<open>\<open>isinstance(x, Exception)\<close>, the test of \<open>except Exception:\<close>.\<close>

fun is_Exception :: "raised \<Rightarrow> bool" where
  "is_Exception (VendorBaseException n) = False"
| "is_Exception x = True"

text \<open>The host's enum \<open>homeassistant.components.climate.HVACMode\<close>.\<close>

datatype HVACMode = OFF | HEAT | COOL | HEAT_COOL | AUTO | DRY | FAN_ONLY

text \<open>
  The string constants that climate.py imports from the host platform
  (\<open>FAN_AUTO\<close>, \<open>FAN_LOW\<close>, \<open>FAN_MEDIUM\<close>, \<open>FAN_HIGH\<close> of
  \<open>homeassistant.components.climate\<close> and \<open>ATTR_TEMPERATURE\<close> of
  \<open>homeassistant.const\<close>). Their declarations are not among the sources, so the
  adapter takes them as a parameter.
\<close>

record host_consts =
  FAN_AUTO :: string
  FAN_LOW :: string
  FAN_MEDIUM :: string
  FAN_HIGH :: string
  ATTR_TEMPERATURE :: string

text \<open>The values the host platform gives them.\<close>

definition ha_consts :: host_consts where
  "ha_consts = \<lparr> FAN_AUTO = ''auto'', FAN_LOW = ''low'', FAN_MEDIUM = ''medium'',
                 FAN_HIGH = ''high'', ATTR_TEMPERATURE = ''temperature'' \<rparr>"

subsection \<open>Python dictionaries and lists\<close>

text \<open>
  A dict literal is an association list in insertion order, which is the order of
  \<open>list(d.keys())\<close> and \<open>list(d.values())\<close>.
\<close>

definition dict_keys :: "('k \<times> 'v) list \<Rightarrow> 'k list" where
  "dict_keys d = map fst d"

definition dict_values :: "('k \<times> 'v) list \<Rightarrow> 'v list" where
  "dict_values d = map snd d"

text \<open>\<open>d[k]\<close> raises KeyError on a missing key; \<open>d.get(k)\<close> returns None there.\<close>

definition dict_getitem :: "(int \<times> 'v) list \<Rightarrow> int \<Rightarrow> raised + 'v" where
  "dict_getitem d k = (case map_of d k of None \<Rightarrow> Inl (KeyError k) | Some v \<Rightarrow> Inr v)"

definition dict_get :: "('k \<times> 'v) list \<Rightarrow> 'k \<Rightarrow> 'v option" where
  "dict_get d k = map_of d k"

text \<open>\<open>xs.index(x)\<close>: the first position of \<open>x\<close>, ValueError when there is none.\<close>

fun list_index :: "'a list \<Rightarrow> 'a \<Rightarrow> raised + nat" where
  "list_index [] x = Inl ValueError"
| "list_index (y # ys) x =
     (if y = x then Inr 0
      else (case list_index ys x of Inl err \<Rightarrow> Inl err | Inr i \<Rightarrow> Inr (Suc i)))"

text \<open>\<open>xs[i]\<close> for an index that \<open>index\<close> produced (never negative).\<close>

definition list_getitem :: "'a list \<Rightarrow> nat \<Rightarrow> raised + 'a" where
  "list_getitem xs i = (if i < length xs then Inr (xs ! i) else Inl IndexError)"

subsection \<open>The translation tables\<close>

definition DKN_MODE_TO_HVAC_MODE :: "(int \<times> HVACMode) list" where
  "DKN_MODE_TO_HVAC_MODE =
     [(5, DRY), (4, FAN_ONLY), (3, HEAT), (2, COOL), (1, HEAT_COOL)]"

definition DKN_MODE_TO_FAN_MODE :: "host_consts \<Rightarrow> (int \<times> string) list" where
  "DKN_MODE_TO_FAN_MODE hc =
     [(0, FAN_AUTO hc), (2, FAN_LOW hc), (4, FAN_MEDIUM hc), (6, FAN_HIGH hc)]"

definition hvac_mode_to_dkn_mode :: "HVACMode \<Rightarrow> raised + int" where
  "hvac_mode_to_dkn_mode hvac_mode_arg =
     (case list_index (dict_values DKN_MODE_TO_HVAC_MODE) hvac_mode_arg of
        Inl err \<Rightarrow> Inl err
      | Inr i \<Rightarrow> list_getitem (dict_keys DKN_MODE_TO_HVAC_MODE) i)"

definition fan_mode_to_dkn_mode :: "host_consts \<Rightarrow> string \<Rightarrow> raised + int" where
  "fan_mode_to_dkn_mode hc fan_mode_arg =
     (case list_index (dict_values (DKN_MODE_TO_FAN_MODE hc)) fan_mode_arg of
        Inl err \<Rightarrow> Inl err
      | Inr i \<Rightarrow> list_getitem (dict_keys (DKN_MODE_TO_FAN_MODE hc)) i)"

subsection \<open>The vendor device\<close>

text \<open>
  The cached fields of \<open>self._device.device_data\<close> that the climate entity reads.
  \<open>power\<close> is compared with \<open>is False\<close> and \<open>is True\<close>, so it keeps its Python value;
  the mode codes are the integers that key the tables.
\<close>

record daikin_data =
  power :: pyval
  mode :: int
  real_mode :: int
  speed_state :: int
  work_temp :: pyval
  setpoint_air_cool :: pyval
  setpoint_air_heat :: pyval
  setpoint_air_auto :: pyval

text \<open>
  The vendor's \<open>set_device_value(key, value)\<close> is not part of this repository. It is a
  parameter: given the cached data, the key and the value, it either raises or returns
  with the cached data as the vendor library leaves them.
\<close>

type_synonym set_device_value = "daikin_data \<Rightarrow> string \<Rightarrow> pyval \<Rightarrow> raised + daikin_data"

text \<open>
  The entity during one setter call: the device's cached data, the vendor set calls
  issued so far (oldest first, a call that raises included) and the number of times
  \<open>schedule_update_ha_state\<close> was called.
\<close>

record entity =
  device_data :: daikin_data
  calls :: "(string \<times> pyval) list"
  scheduled :: nat

text \<open>
  \<open>await self._device.set_device_value(key, value)\<close>: the call is recorded, then it
  raises (\<open>Some\<close>) or returns (\<open>None\<close>).
\<close>

definition call_set_device_value ::
  "set_device_value \<Rightarrow> string \<Rightarrow> pyval \<Rightarrow> entity \<Rightarrow> raised option \<times> entity" where
  "call_set_device_value sdv key val e =
     (case sdv (device_data e) key val of
        Inl err \<Rightarrow> (Some err, e\<lparr>calls := calls e @ [(key, val)]\<rparr>)
      | Inr d \<Rightarrow> (None, e\<lparr>calls := calls e @ [(key, val)], device_data := d\<rparr>))"

subsection \<open>Getters\<close>

text \<open>
  \<open>hvac_action\<close> never raises: \<open>dict.get\<close> gives None on an unknown code. It reads
  \<open>real_mode\<close>, while \<open>hvac_mode\<close> reads \<open>mode\<close>.
\<close>

definition hvac_action :: "daikin_data \<Rightarrow> HVACMode option" where
  "hvac_action d =
     (if power d = PBool False then Some OFF
      else dict_get DKN_MODE_TO_HVAC_MODE (real_mode d))"

definition hvac_mode :: "daikin_data \<Rightarrow> raised + HVACMode" where
  "hvac_mode d =
     (if power d = PBool False then Inr OFF
      else dict_getitem DKN_MODE_TO_HVAC_MODE (mode d))"

text \<open>
  \<open>target_temperature\<close> reads the property \<open>hvac_mode\<close> anew in each test, and an
  exception of that read propagates.
\<close>

definition target_temperature :: "daikin_data \<Rightarrow> raised + pyval" where
  "target_temperature d =
     (case hvac_mode d of Inl err \<Rightarrow> Inl err | Inr m1 \<Rightarrow>
        if m1 = COOL then Inr (setpoint_air_cool d)
        else (case hvac_mode d of Inl err \<Rightarrow> Inl err | Inr m2 \<Rightarrow>
          if m2 = HEAT then Inr (setpoint_air_heat d)
          else (case hvac_mode d of Inl err \<Rightarrow> Inl err | Inr m3 \<Rightarrow>
            if m3 = HEAT_COOL then Inr (setpoint_air_auto d)
            else Inr PNone)))"

subsection \<open>Setters\<close>

text \<open>
  The result of a setter is what it raised (\<open>None\<close> when it returned) and the entity
  it leaves. The argument of the mode call is evaluated before the call, so a failing
  reverse lookup raises with no call issued.
\<close>

definition async_set_hvac_mode ::
  "set_device_value \<Rightarrow> entity \<Rightarrow> HVACMode \<Rightarrow> raised option \<times> entity" where
  "async_set_hvac_mode sdv e hvac_mode_arg =
     (let current_power_state = (power (device_data e) = PBool True);
          new_power_state = (hvac_mode_arg \<noteq> OFF);
          (r1, e1) =
            (if new_power_state then
               (case hvac_mode_to_dkn_mode hvac_mode_arg of
                  Inl err \<Rightarrow> (Some err, e)
                | Inr code \<Rightarrow> call_set_device_value sdv ''mode'' (PInt code) e)
             else (None, e))
      in case r1 of
           Some err \<Rightarrow> (Some err, e1)
         | None \<Rightarrow>
             if new_power_state \<noteq> current_power_state then
               (case call_set_device_value sdv ''power'' (PBool new_power_state) e1 of
                  (Some err, e2) \<Rightarrow> (Some err, e2)
                | (None, e2) \<Rightarrow> (None, e2\<lparr>scheduled := Suc (scheduled e2)\<rparr>))
             else (None, e1))"

text \<open>\<open>kwargs.get(key)\<close>: None for a missing key.\<close>

definition kwargs_get :: "(string \<rightharpoonup> pyval) \<Rightarrow> string \<Rightarrow> pyval" where
  "kwargs_get kwargs key = (case kwargs key of None \<Rightarrow> PNone | Some v \<Rightarrow> v)"

text \<open>
  The \<open>if\<close>/\<open>elif\<close> chain of \<open>async_set_temperature\<close> that chooses
  \<open>property_to_update\<close>, each test reading \<open>hvac_mode\<close> anew.
\<close>

definition property_to_update :: "daikin_data \<Rightarrow> raised + string" where
  "property_to_update d =
     (case hvac_mode d of Inl err \<Rightarrow> Inl err | Inr m1 \<Rightarrow>
        if m1 = COOL then Inr ''setpoint_air_cool''
        else (case hvac_mode d of Inl err \<Rightarrow> Inl err | Inr m2 \<Rightarrow>
          if m2 = HEAT then Inr ''setpoint_air_heat''
          else (case hvac_mode d of Inl err \<Rightarrow> Inl err | Inr m3 \<Rightarrow>
            if m3 = HEAT_COOL then Inr ''setpoint_air_auto''
            else Inl (UpdateFailed ''Invalid hvac_mode:  %s'' None))))"

definition async_set_temperature ::
  "host_consts \<Rightarrow> set_device_value \<Rightarrow> entity \<Rightarrow> (string \<rightharpoonup> pyval)
     \<Rightarrow> raised option \<times> entity" where
  "async_set_temperature hc sdv e kwargs =
     (let temperature = kwargs_get kwargs (ATTR_TEMPERATURE hc) in
      if temperature = PNone then
        (Some (UpdateFailed ''No target temperature specified'' None), e)
      else
        (case property_to_update (device_data e) of
           Inl err \<Rightarrow> (Some err, e)
         | Inr prop \<Rightarrow>
             (case call_set_device_value sdv prop temperature e of
                (Some err, e') \<Rightarrow>
                  if is_Exception err
                  then (Some (UpdateFailed ''set_temperature update failed'' (Some err)), e')
                  else (Some err, e')
              | (None, e') \<Rightarrow> (None, e'))))"

subsection \<open>Concrete devices and vendors\<close>

text \<open>A unit that is switched off, its stored mode being COOL (code 2).\<close>

definition unit_off :: daikin_data where
  "unit_off = \<lparr> power = PBool False, mode = 2, real_mode = 2, speed_state = 0,
                work_temp = PFloat 70, setpoint_air_cool = PFloat 74,
                setpoint_air_heat = PFloat 68, setpoint_air_auto = PFloat 72 \<rparr>"

text \<open>A running unit with the given \<open>mode\<close> and \<open>real_mode\<close> codes.\<close>

definition unit_on :: "int \<Rightarrow> int \<Rightarrow> daikin_data" where
  "unit_on m r = unit_off \<lparr> power := PBool True, mode := m, real_mode := r \<rparr>"

text \<open>A vendor setter that accepts every call and leaves the cached data as they are.\<close>

definition vendor_accepts :: set_device_value where
  "vendor_accepts d key val = Inr d"

text \<open>A vendor setter that raises on every call.\<close>

definition vendor_raises :: set_device_value where
  "vendor_raises d key val = Inl (VendorException 0)"

text \<open>
  A vendor setter whose every call ends in a \<open>BaseException\<close> that is not an
  \<open>Exception\<close>, as the \<open>CancelledError\<close> of a cancelled await is.
\<close>

definition vendor_cancelled :: set_device_value where
  "vendor_cancelled d key val = Inl (VendorBaseException 0)"

text \<open>An entity at the start of a setter call.\<close>

definition fresh :: "daikin_data \<Rightarrow> entity" where
  "fresh d = \<lparr> device_data = d, calls = [], scheduled = 0 \<rparr>"

section \<open>Properties\<close>

subsection \<open>Lists and tables\<close>

lemma list_index_absent: "x \<notin> set xs \<Longrightarrow> list_index xs x = Inl ValueError"
  by (induction xs) auto

text \<open>
  In a dict whose values are pairwise different, \<open>index\<close> on the values finds the
  position of the entry, so the key at that position is the entry's key.
\<close>

lemma reverse_lookup:
  "distinct (map snd d) \<Longrightarrow> (k, v) \<in> set d \<Longrightarrow>
   \<exists>i. list_index (map snd d) v = Inr i \<and> i < length d \<and> map fst d ! i = k"
proof (induction d)
  case Nil
  then show ?case by simp
next
  case (Cons p d)
  show ?case
  proof (cases "snd p = v")
    case True
    with Cons.prems have "p = (k, v)"
      by (cases p) (auto simp add: rev_image_eqI)
    then show ?thesis by simp
  next
    case False
    with Cons.prems have "(k, v) \<in> set d" "distinct (map snd d)" by auto
    with Cons.IH obtain i where "list_index (map snd d) v = Inr i" "i < length d"
      "map fst d ! i = k"
      by blast
    with False show ?thesis by simp
  qed
qed

lemma dkn_hvac_values:
  "dict_values DKN_MODE_TO_HVAC_MODE = [DRY, FAN_ONLY, HEAT, COOL, HEAT_COOL]"
  by (simp add: dict_values_def DKN_MODE_TO_HVAC_MODE_def)

lemma dkn_hvac_keys: "dict_keys DKN_MODE_TO_HVAC_MODE = [5, 4, 3, 2, 1]"
  by (simp add: dict_keys_def DKN_MODE_TO_HVAC_MODE_def)

lemma dkn_hvac_forward:
  "dict_get DKN_MODE_TO_HVAC_MODE c = Some m \<longleftrightarrow>
     (c = 5 \<and> m = DRY) \<or> (c = 4 \<and> m = FAN_ONLY) \<or> (c = 3 \<and> m = HEAT)
     \<or> (c = 2 \<and> m = COOL) \<or> (c = 1 \<and> m = HEAT_COOL)"
  by (auto simp add: dict_get_def DKN_MODE_TO_HVAC_MODE_def)

lemma dkn_hvac_forward_none:
  "dict_get DKN_MODE_TO_HVAC_MODE c = None \<longleftrightarrow> c \<notin> {1, 2, 3, 4, 5}"
  by (simp add: dict_get_def DKN_MODE_TO_HVAC_MODE_def)

lemma hvac_reverse_present:
  "dict_get DKN_MODE_TO_HVAC_MODE c = Some m \<Longrightarrow>
   hvac_mode_to_dkn_mode m = Inr c \<and> m \<noteq> OFF"
  by (auto simp add: dkn_hvac_forward hvac_mode_to_dkn_mode_def dkn_hvac_values dkn_hvac_keys
      list_getitem_def)

lemma hvac_mode_unit_on:
  "hvac_mode (unit_on 1 r) = Inr HEAT_COOL" "hvac_mode (unit_on 2 r) = Inr COOL"
  "hvac_mode (unit_on 3 r) = Inr HEAT" "hvac_mode (unit_on 4 r) = Inr FAN_ONLY"
  "hvac_mode (unit_on 5 r) = Inr DRY"
  by (simp_all add: hvac_mode_def unit_on_def unit_off_def dict_getitem_def
      DKN_MODE_TO_HVAC_MODE_def)

lemma hvac_mode_unit_off: "hvac_mode unit_off = Inr OFF"
  by (simp add: hvac_mode_def unit_off_def)

lemma property_to_update_by_mode:
  "hvac_mode d = Inr m \<Longrightarrow>
   property_to_update d =
     (if m = COOL then Inr ''setpoint_air_cool''
      else if m = HEAT then Inr ''setpoint_air_heat''
      else if m = HEAT_COOL then Inr ''setpoint_air_auto''
      else Inl (UpdateFailed ''Invalid hvac_mode:  %s'' None))"
  by (simp add: property_to_update_def)

subsection \<open>Round trips through the translation tables\<close>

text \<open>
  C1. Every vendor mode code of the table (the codes 1 to 5, and no other code is a key)
  is mapped by the forward table to a host mode that the reverse lookup
  \<open>_hvac_mode_to_dkn_mode\<close> maps back to the same code.
\<close>

theorem hvac_round_trip:
  "set (dict_keys DKN_MODE_TO_HVAC_MODE) = {1, 2, 3, 4, 5} \<and>
   (dict_get DKN_MODE_TO_HVAC_MODE c = Some m \<longrightarrow> hvac_mode_to_dkn_mode m = Inr c)"
proof
  show "set (dict_keys DKN_MODE_TO_HVAC_MODE) = {1, 2, 3, 4, 5}"
    by (auto simp add: dkn_hvac_keys)
next
  show "dict_get DKN_MODE_TO_HVAC_MODE c = Some m \<longrightarrow> hvac_mode_to_dkn_mode m = Inr c"
    by (simp add: hvac_reverse_present)
qed

theorem hvac_round_trip_witness:
  "dict_get DKN_MODE_TO_HVAC_MODE 3 = Some HEAT \<and> hvac_mode_to_dkn_mode HEAT = Inr 3"
proof -
  have h: "dict_get DKN_MODE_TO_HVAC_MODE 3 = Some HEAT"
    by (simp add: dict_get_def DKN_MODE_TO_HVAC_MODE_def)
  with hvac_round_trip [of 3 HEAT] show ?thesis by simp
qed

text \<open>
  C8. Every vendor fan-speed code of the table (the codes 0, 2, 4 and 6, and no other
  code is a key) is mapped by the forward table to a host fan mode that the reverse
  lookup \<open>_fan_mode_to_dkn_mode\<close> maps back to the same code. The four fan-mode
  constants come from the host platform; the round trip holds whenever they are
  pairwise different, as the host's values are.
\<close>

theorem fan_round_trip:
  assumes "distinct [FAN_AUTO hc, FAN_LOW hc, FAN_MEDIUM hc, FAN_HIGH hc]"
  shows "set (dict_keys (DKN_MODE_TO_FAN_MODE hc)) = {0, 2, 4, 6} \<and>
   (dict_get (DKN_MODE_TO_FAN_MODE hc) c = Some f \<longrightarrow> fan_mode_to_dkn_mode hc f = Inr c)"
proof
  show "set (dict_keys (DKN_MODE_TO_FAN_MODE hc)) = {0, 2, 4, 6}"
    by (auto simp add: dict_keys_def DKN_MODE_TO_FAN_MODE_def)
next
  show "dict_get (DKN_MODE_TO_FAN_MODE hc) c = Some f \<longrightarrow> fan_mode_to_dkn_mode hc f = Inr c"
  proof
    assume "dict_get (DKN_MODE_TO_FAN_MODE hc) c = Some f"
    then have "map_of (DKN_MODE_TO_FAN_MODE hc) c = Some f"
      by (simp only: dict_get_def)
    then have mem: "(c, f) \<in> set (DKN_MODE_TO_FAN_MODE hc)"
      by (rule map_of_SomeD)
    from assms have dist: "distinct (map snd (DKN_MODE_TO_FAN_MODE hc))"
      by (simp add: DKN_MODE_TO_FAN_MODE_def)
    from reverse_lookup [OF dist mem]
    obtain i where "list_index (map snd (DKN_MODE_TO_FAN_MODE hc)) f = Inr i"
      and "i < length (DKN_MODE_TO_FAN_MODE hc)"
      and "map fst (DKN_MODE_TO_FAN_MODE hc) ! i = c"
      by blast
    then show "fan_mode_to_dkn_mode hc f = Inr c"
      by (simp add: fan_mode_to_dkn_mode_def dict_values_def dict_keys_def list_getitem_def)
  qed
qed

theorem fan_round_trip_witness:
  "distinct [FAN_AUTO ha_consts, FAN_LOW ha_consts, FAN_MEDIUM ha_consts, FAN_HIGH ha_consts] \<and>
   dict_get (DKN_MODE_TO_FAN_MODE ha_consts) 4 = Some ''medium'' \<and>
   fan_mode_to_dkn_mode ha_consts ''medium'' = Inr 4"
proof -
  have d: "distinct [FAN_AUTO ha_consts, FAN_LOW ha_consts, FAN_MEDIUM ha_consts,
                     FAN_HIGH ha_consts]"
    by (simp add: ha_consts_def)
  have g: "dict_get (DKN_MODE_TO_FAN_MODE ha_consts) 4 = Some ''medium''"
    by (simp add: dict_get_def DKN_MODE_TO_FAN_MODE_def ha_consts_def)
  from fan_round_trip [OF d, of 4 "''medium''"] d g show ?thesis by simp
qed

text \<open>
  C7. The reverse lookup \<open>_hvac_mode_to_dkn_mode\<close> raises (the ValueError of
  \<open>list.index\<close>) for every host mode that is not a value of the table, and OFF is
  such a mode.
\<close>

theorem hvac_reverse_fails:
  "OFF \<notin> set (dict_values DKN_MODE_TO_HVAC_MODE) \<and>
   (m \<notin> set (dict_values DKN_MODE_TO_HVAC_MODE) \<longrightarrow>
      hvac_mode_to_dkn_mode m = Inl ValueError)"
  by (simp add: hvac_mode_to_dkn_mode_def list_index_absent dkn_hvac_values)

theorem hvac_reverse_fails_witness:
  "OFF \<notin> set (dict_values DKN_MODE_TO_HVAC_MODE) \<and>
   AUTO \<notin> set (dict_values DKN_MODE_TO_HVAC_MODE) \<and>
   hvac_mode_to_dkn_mode OFF = Inl ValueError \<and> hvac_mode_to_dkn_mode AUTO = Inl ValueError"
  using hvac_reverse_fails [of OFF] hvac_reverse_fails [of AUTO]
  by (simp add: dkn_hvac_values)

subsection \<open>Getters\<close>

text \<open>
  C5. Whenever the power field is False, \<open>hvac_mode\<close> returns OFF, whatever the stored
  mode code is. When the power field is True, \<open>hvac_mode\<close> is the forward-table
  lookup of the mode code: the host mode of a code of the table, and a KeyError for any
  other code.
\<close>

theorem hvac_mode_power:
  "(power d = PBool False \<longrightarrow> hvac_mode d = Inr OFF) \<and>
   (power d = PBool True \<longrightarrow>
      hvac_mode d = (case dict_get DKN_MODE_TO_HVAC_MODE (mode d) of
                       Some m \<Rightarrow> Inr m
                     | None \<Rightarrow> Inl (KeyError (mode d))))"
  by (simp add: hvac_mode_def dict_getitem_def dict_get_def)

theorem hvac_mode_power_witness:
  "power unit_off = PBool False \<and> mode unit_off = 2 \<and> hvac_mode unit_off = Inr OFF \<and>
   power (unit_on 2 2) = PBool True \<and> hvac_mode (unit_on 2 2) = Inr COOL"
  using hvac_mode_power [of unit_off] hvac_mode_power [of "unit_on 2 2"]
  by (simp add: unit_off_def unit_on_def dict_get_def DKN_MODE_TO_HVAC_MODE_def)

text \<open>
  C4. \<open>target_temperature\<close> returns the cool setpoint when the derived mode is COOL,
  the heat setpoint when it is HEAT, the auto setpoint when it is HEAT_COOL, and None
  when the derived mode is FAN_ONLY, DRY or OFF.
\<close>

theorem target_temperature_by_mode:
  "(hvac_mode d = Inr COOL \<longrightarrow> target_temperature d = Inr (setpoint_air_cool d)) \<and>
   (hvac_mode d = Inr HEAT \<longrightarrow> target_temperature d = Inr (setpoint_air_heat d)) \<and>
   (hvac_mode d = Inr HEAT_COOL \<longrightarrow> target_temperature d = Inr (setpoint_air_auto d)) \<and>
   (hvac_mode d = Inr FAN_ONLY \<or> hvac_mode d = Inr DRY \<or> hvac_mode d = Inr OFF
      \<longrightarrow> target_temperature d = Inr PNone)"
  by (auto simp add: target_temperature_def)

theorem target_temperature_by_mode_witness:
  "target_temperature (unit_on 2 2) = Inr (PFloat 74) \<and>
   target_temperature (unit_on 3 3) = Inr (PFloat 68) \<and>
   target_temperature (unit_on 1 1) = Inr (PFloat 72) \<and>
   target_temperature (unit_on 4 4) = Inr PNone \<and>
   target_temperature (unit_on 5 5) = Inr PNone \<and>
   target_temperature unit_off = Inr PNone"
proof -
  have "target_temperature (unit_on 2 2) = Inr (setpoint_air_cool (unit_on 2 2))"
    using target_temperature_by_mode [of "unit_on 2 2"] by (simp add: hvac_mode_unit_on)
  moreover have "target_temperature (unit_on 3 3) = Inr (setpoint_air_heat (unit_on 3 3))"
    using target_temperature_by_mode [of "unit_on 3 3"] by (simp add: hvac_mode_unit_on)
  moreover have "target_temperature (unit_on 1 1) = Inr (setpoint_air_auto (unit_on 1 1))"
    using target_temperature_by_mode [of "unit_on 1 1"] by (simp add: hvac_mode_unit_on)
  moreover have "target_temperature (unit_on 4 4) = Inr PNone"
    using target_temperature_by_mode [of "unit_on 4 4"] by (simp add: hvac_mode_unit_on)
  moreover have "target_temperature (unit_on 5 5) = Inr PNone"
    using target_temperature_by_mode [of "unit_on 5 5"] by (simp add: hvac_mode_unit_on)
  moreover have "target_temperature unit_off = Inr PNone"
    using target_temperature_by_mode [of unit_off] by (simp add: hvac_mode_unit_off)
  ultimately show ?thesis
    by (simp add: unit_on_def unit_off_def)
qed

text \<open>
  C10, as stated, fails: on a running unit whose mode code 9 is not in the table and
  whose real_mode code is 2, \<open>hvac_action\<close> returns COOL rather than None, since it
  looks up \<open>real_mode\<close>, not \<open>mode\<close>.
\<close>

theorem getters_unknown_code_counterexample:
  "power (unit_on 9 2) = PBool True \<and>
   dict_get DKN_MODE_TO_HVAC_MODE (mode (unit_on 9 2)) = None \<and>
   hvac_action (unit_on 9 2) = Some COOL \<and>
   hvac_mode (unit_on 9 2) = Inl (KeyError 9)"
  by (simp add: unit_on_def unit_off_def hvac_action_def hvac_mode_def dict_get_def
      dict_getitem_def DKN_MODE_TO_HVAC_MODE_def)

text \<open>
  C10, amended. When the power field is True: \<open>hvac_action\<close> returns None if the
  real_mode code is absent from the table (a defaulting lookup), and \<open>hvac_mode\<close>
  raises KeyError if the mode code is absent from the table (a direct access). On a
  unit whose two codes are the same unknown code, the getters disagree in this way.
\<close>

theorem getters_unknown_code:
  assumes "power d = PBool True"
  shows "(dict_get DKN_MODE_TO_HVAC_MODE (real_mode d) = None \<longrightarrow> hvac_action d = None) \<and>
         (dict_get DKN_MODE_TO_HVAC_MODE (mode d) = None \<longrightarrow>
            hvac_mode d = Inl (KeyError (mode d)))"
  using assms by (simp add: hvac_action_def hvac_mode_def dict_getitem_def dict_get_def)

theorem getters_unknown_code_witness:
  "power (unit_on 9 9) = PBool True \<and>
   dict_get DKN_MODE_TO_HVAC_MODE (real_mode (unit_on 9 9)) = None \<and>
   dict_get DKN_MODE_TO_HVAC_MODE (mode (unit_on 9 9)) = None \<and>
   hvac_action (unit_on 9 9) = None \<and> hvac_mode (unit_on 9 9) = Inl (KeyError 9)"
proof -
  have p: "power (unit_on 9 9) = PBool True"
    by (simp add: unit_on_def)
  have r: "dict_get DKN_MODE_TO_HVAC_MODE (real_mode (unit_on 9 9)) = None"
    and m: "dict_get DKN_MODE_TO_HVAC_MODE (mode (unit_on 9 9)) = None"
    by (simp_all add: unit_on_def dkn_hvac_forward_none)
  have "mode (unit_on 9 9) = 9"
    by (simp add: unit_on_def)
  with getters_unknown_code [OF p] p r m show ?thesis by simp
qed

subsection \<open>Setting the HVAC mode\<close>

text \<open>
  C2, as stated, fails: AUTO is a non-OFF target mode, and with the power field False
  the reverse lookup raises ValueError before any vendor call is issued.
\<close>

theorem set_mode_auto_counterexample:
  "AUTO \<noteq> OFF \<and> power (device_data (fresh unit_off)) = PBool False \<and>
   async_set_hvac_mode vendor_accepts (fresh unit_off) AUTO = (Some ValueError, fresh unit_off) \<and>
   calls (fresh unit_off) = []"
  by (simp add: async_set_hvac_mode_def hvac_mode_to_dkn_mode_def dkn_hvac_values
      fresh_def unit_off_def)

text \<open>
  C2, amended. For a target mode of the table (DRY, FAN_ONLY, HEAT, COOL, HEAT_COOL,
  with its code \<open>c\<close>) while the power field is False, the adapter first issues the
  mode-code update \<open>(mode, c)\<close>. If that call raises, the exception propagates and
  no other call is issued. If it returns, the adapter then issues the power-on update
  \<open>(power, True)\<close>, and these two calls, in this order, are all it issues.
\<close>

theorem set_mode_turning_on:
  assumes "power (device_data e) = PBool False"
    and "dict_get DKN_MODE_TO_HVAC_MODE c = Some m"
  shows "case sdv (device_data e) ''mode'' (PInt c) of
           Inl err \<Rightarrow>
             async_set_hvac_mode sdv e m =
               (Some err, e\<lparr>calls := calls e @ [(''mode'', PInt c)]\<rparr>)
         | Inr d \<Rightarrow>
             calls (snd (async_set_hvac_mode sdv e m)) =
               calls e @ [(''mode'', PInt c), (''power'', PBool True)]"
proof -
  from assms(2) have rev: "hvac_mode_to_dkn_mode m = Inr c" and on: "m \<noteq> OFF"
    by (simp_all add: hvac_reverse_present)
  show ?thesis
  proof (cases "sdv (device_data e) ''mode'' (PInt c)")
    case (Inl err)
    with rev on show ?thesis
      by (simp add: async_set_hvac_mode_def call_set_device_value_def)
  next
    case (Inr d)
    with rev on assms(1) show ?thesis
      by (simp add: async_set_hvac_mode_def call_set_device_value_def split: sum.split)
  qed
qed

theorem set_mode_turning_on_witness:
  "power (device_data (fresh unit_off)) = PBool False \<and>
   dict_get DKN_MODE_TO_HVAC_MODE 3 = Some HEAT \<and>
   calls (snd (async_set_hvac_mode vendor_accepts (fresh unit_off) HEAT)) =
     [(''mode'', PInt 3), (''power'', PBool True)] \<and>
   async_set_hvac_mode vendor_raises (fresh unit_off) HEAT =
     (Some (VendorException 0), (fresh unit_off)\<lparr>calls := [(''mode'', PInt 3)]\<rparr>)"
proof -
  have p: "power (device_data (fresh unit_off)) = PBool False"
    by (simp add: fresh_def unit_off_def)
  have g: "dict_get DKN_MODE_TO_HVAC_MODE 3 = Some HEAT"
    by (simp add: dict_get_def DKN_MODE_TO_HVAC_MODE_def)
  have c: "calls (fresh unit_off) = []"
    by (simp add: fresh_def)
  from set_mode_turning_on [OF p g, of vendor_accepts]
  have "calls (snd (async_set_hvac_mode vendor_accepts (fresh unit_off) HEAT)) =
     [(''mode'', PInt 3), (''power'', PBool True)]"
    by (simp add: vendor_accepts_def c)
  moreover from set_mode_turning_on [OF p g, of vendor_raises]
  have "async_set_hvac_mode vendor_raises (fresh unit_off) HEAT =
     (Some (VendorException 0), (fresh unit_off)\<lparr>calls := [(''mode'', PInt 3)]\<rparr>)"
    by (simp add: vendor_raises_def c)
  ultimately show ?thesis using p g by simp
qed

text \<open>
  C3. With target mode OFF the adapter never issues a mode-code command: the vendor
  calls it issues are exactly one power-off update \<open>(power, False)\<close> when the power
  field is True, and none otherwise.
\<close>

theorem set_mode_off_calls:
  "calls (snd (async_set_hvac_mode sdv e OFF)) =
     calls e @ (if power (device_data e) = PBool True then [(''power'', PBool False)] else [])"
  by (simp add: async_set_hvac_mode_def call_set_device_value_def split: sum.split)

text \<open>
  C9. With target mode OFF while the power field is already False, the setter returns
  normally and leaves the entity as it was: no vendor set call is issued (whatever the
  vendor would have done) and no host state update is scheduled.
\<close>

theorem set_mode_off_when_off:
  "power (device_data e) = PBool False \<Longrightarrow> async_set_hvac_mode sdv e OFF = (None, e)"
  by (simp add: async_set_hvac_mode_def)

theorem set_mode_off_when_off_witness:
  "power (device_data (fresh unit_off)) = PBool False \<and>
   async_set_hvac_mode vendor_raises (fresh unit_off) OFF = (None, fresh unit_off) \<and>
   calls (fresh unit_off) = [] \<and> scheduled (fresh unit_off) = 0"
proof -
  have p: "power (device_data (fresh unit_off)) = PBool False"
    by (simp add: fresh_def unit_off_def)
  from set_mode_off_when_off [OF p, of vendor_raises] p show ?thesis
    by (simp add: fresh_def)
qed

subsection \<open>Setting the temperature\<close>

lemma hvac_mode_unit_on_unknown: "hvac_mode (unit_on 9 r) = Inl (KeyError 9)"
  by (simp add: hvac_mode_def unit_on_def unit_off_def dict_getitem_def
      DKN_MODE_TO_HVAC_MODE_def)

lemma property_to_update_raises:
  "hvac_mode d = Inl err \<Longrightarrow> property_to_update d = Inl err"
  by (simp add: property_to_update_def)

text \<open>
  C6, as stated, fails in two places. On a running unit whose mode code 9 is not in the
  table, the derived mode is none of COOL, HEAT and HEAT_COOL, yet with a temperature
  given the setter raises the KeyError of the \<open>hvac_mode\<close> getter, not UpdateFailed.
  And a vendor call that ends in a \<open>BaseException\<close> which is not an \<open>Exception\<close>
  is not caught by \<open>except Exception\<close>: it leaves the setter as it is.
\<close>

theorem set_temperature_counterexample:
  "kwargs_get [''temperature'' \<mapsto> PFloat 71] (ATTR_TEMPERATURE ha_consts) = PFloat 71 \<and>
   hvac_mode (device_data (fresh (unit_on 9 9))) = Inl (KeyError 9) \<and>
   async_set_temperature ha_consts vendor_accepts (fresh (unit_on 9 9))
       [''temperature'' \<mapsto> PFloat 71] =
     (Some (KeyError 9), fresh (unit_on 9 9)) \<and>
   hvac_mode (device_data (fresh (unit_on 2 2))) = Inr COOL \<and>
   vendor_cancelled (unit_on 2 2) ''setpoint_air_cool'' (PFloat 71) =
     Inl (VendorBaseException 0) \<and>
   async_set_temperature ha_consts vendor_cancelled (fresh (unit_on 2 2))
       [''temperature'' \<mapsto> PFloat 71] =
     (Some (VendorBaseException 0),
      (fresh (unit_on 2 2))\<lparr>calls := [(''setpoint_air_cool'', PFloat 71)]\<rparr>)"
  by (simp add: async_set_temperature_def kwargs_get_def ha_consts_def fresh_def
      hvac_mode_unit_on hvac_mode_unit_on_unknown property_to_update_raises
      property_to_update_by_mode call_set_device_value_def vendor_cancelled_def)

text \<open>
  C6, amended. \<open>async_set_temperature\<close> raises UpdateFailed, with no vendor call,
  when the temperature argument is missing (absent or None), and when the temperature is
  given and the \<open>hvac_mode\<close> getter returns a mode that is none of COOL, HEAT and
  HEAT_COOL. When the temperature is given and the getter itself raises (the KeyError of
  an unknown mode code), that exception propagates, with no vendor call. When the vendor
  setter is called and raises an instance of \<open>Exception\<close>, whichever it is, the setter
  raises UpdateFailed with one fixed message and no explicit cause, the vendor's
  exception remaining only as the implicit \<open>__context__\<close>; any other
  \<open>BaseException\<close> of the vendor call propagates unchanged.
\<close>

theorem set_temperature_outcomes:
  "(kwargs_get kwargs (ATTR_TEMPERATURE hc) = PNone \<longrightarrow>
      async_set_temperature hc sdv e kwargs =
        (Some (UpdateFailed ''No target temperature specified'' None), e)) \<and>
   (kwargs_get kwargs (ATTR_TEMPERATURE hc) \<noteq> PNone \<and> hvac_mode (device_data e) = Inr m
      \<and> m \<noteq> COOL \<and> m \<noteq> HEAT \<and> m \<noteq> HEAT_COOL \<longrightarrow>
      async_set_temperature hc sdv e kwargs =
        (Some (UpdateFailed ''Invalid hvac_mode:  %s'' None), e)) \<and>
   (kwargs_get kwargs (ATTR_TEMPERATURE hc) \<noteq> PNone \<and> hvac_mode (device_data e) = Inl err
      \<longrightarrow> async_set_temperature hc sdv e kwargs = (Some err, e)) \<and>
   (kwargs_get kwargs (ATTR_TEMPERATURE hc) = t \<and> t \<noteq> PNone
      \<and> property_to_update (device_data e) = Inr p
      \<and> sdv (device_data e) p t = Inl x \<longrightarrow>
      async_set_temperature hc sdv e kwargs =
        (Some (if is_Exception x
               then UpdateFailed ''set_temperature update failed'' (Some x) else x),
         e\<lparr>calls := calls e @ [(p, t)]\<rparr>))"
proof (intro conjI impI)
  assume "kwargs_get kwargs (ATTR_TEMPERATURE hc) = PNone"
  then show "async_set_temperature hc sdv e kwargs =
        (Some (UpdateFailed ''No target temperature specified'' None), e)"
    by (simp add: async_set_temperature_def)
next
  assume a: "kwargs_get kwargs (ATTR_TEMPERATURE hc) \<noteq> PNone \<and> hvac_mode (device_data e) = Inr m
      \<and> m \<noteq> COOL \<and> m \<noteq> HEAT \<and> m \<noteq> HEAT_COOL"
  then have "property_to_update (device_data e) =
      Inl (UpdateFailed ''Invalid hvac_mode:  %s'' None)"
    by (simp add: property_to_update_by_mode)
  with a show "async_set_temperature hc sdv e kwargs =
        (Some (UpdateFailed ''Invalid hvac_mode:  %s'' None), e)"
    by (simp add: async_set_temperature_def)
next
  assume a: "kwargs_get kwargs (ATTR_TEMPERATURE hc) \<noteq> PNone
      \<and> hvac_mode (device_data e) = Inl err"
  then have "property_to_update (device_data e) = Inl err"
    by (simp add: property_to_update_raises)
  with a show "async_set_temperature hc sdv e kwargs = (Some err, e)"
    by (simp add: async_set_temperature_def)
next
  assume "kwargs_get kwargs (ATTR_TEMPERATURE hc) = t \<and> t \<noteq> PNone
      \<and> property_to_update (device_data e) = Inr p
      \<and> sdv (device_data e) p t = Inl x"
  then show "async_set_temperature hc sdv e kwargs =
        (Some (if is_Exception x
               then UpdateFailed ''set_temperature update failed'' (Some x) else x),
         e\<lparr>calls := calls e @ [(p, t)]\<rparr>)"
    by (simp add: async_set_temperature_def call_set_device_value_def)
qed

theorem set_temperature_outcomes_witness:
  "async_set_temperature ha_consts vendor_accepts (fresh (unit_on 2 2)) Map.empty =
     (Some (UpdateFailed ''No target temperature specified'' None), fresh (unit_on 2 2)) \<and>
   async_set_temperature ha_consts vendor_accepts (fresh (unit_on 5 5))
       [''temperature'' \<mapsto> PFloat 71] =
     (Some (UpdateFailed ''Invalid hvac_mode:  %s'' None), fresh (unit_on 5 5)) \<and>
   async_set_temperature ha_consts vendor_accepts (fresh (unit_on 9 9))
       [''temperature'' \<mapsto> PFloat 71] =
     (Some (KeyError 9), fresh (unit_on 9 9)) \<and>
   async_set_temperature ha_consts vendor_raises (fresh (unit_on 2 2))
       [''temperature'' \<mapsto> PFloat 71] =
     (Some (UpdateFailed ''set_temperature update failed'' (Some (VendorException 0))),
      (fresh (unit_on 2 2))\<lparr>calls := [(''setpoint_air_cool'', PFloat 71)]\<rparr>) \<and>
   async_set_temperature ha_consts vendor_cancelled (fresh (unit_on 2 2))
       [''temperature'' \<mapsto> PFloat 71] =
     (Some (VendorBaseException 0),
      (fresh (unit_on 2 2))\<lparr>calls := [(''setpoint_air_cool'', PFloat 71)]\<rparr>)"
proof -
  have k0: "kwargs_get Map.empty (ATTR_TEMPERATURE ha_consts) = PNone"
    by (simp add: kwargs_get_def)
  have k1: "kwargs_get [''temperature'' \<mapsto> PFloat 71] (ATTR_TEMPERATURE ha_consts) = PFloat 71"
    by (simp add: kwargs_get_def ha_consts_def)
  have m5: "hvac_mode (device_data (fresh (unit_on 5 5))) = Inr DRY"
    by (simp add: fresh_def hvac_mode_unit_on)
  have m9: "hvac_mode (device_data (fresh (unit_on 9 9))) = Inl (KeyError 9)"
    by (simp add: fresh_def hvac_mode_unit_on_unknown)
  have p2: "property_to_update (device_data (fresh (unit_on 2 2))) = Inr ''setpoint_air_cool''"
    by (simp add: fresh_def property_to_update_by_mode [OF hvac_mode_unit_on(2)])
  have v: "vendor_raises (device_data (fresh (unit_on 2 2))) ''setpoint_air_cool'' (PFloat 71)
             = Inl (VendorException 0)"
    by (simp add: vendor_raises_def)
  have w: "vendor_cancelled (device_data (fresh (unit_on 2 2))) ''setpoint_air_cool''
             (PFloat 71) = Inl (VendorBaseException 0)"
    by (simp add: vendor_cancelled_def)
  have c: "calls (fresh (unit_on 2 2)) = []"
    by (simp add: fresh_def)
  from set_temperature_outcomes
         [where kwargs = Map.empty and hc = ha_consts and sdv = vendor_accepts
            and e = "fresh (unit_on 2 2)"] k0
  have "async_set_temperature ha_consts vendor_accepts (fresh (unit_on 2 2)) Map.empty =
     (Some (UpdateFailed ''No target temperature specified'' None), fresh (unit_on 2 2))"
    by simp
  moreover
  from set_temperature_outcomes
         [where kwargs = "[''temperature'' \<mapsto> PFloat 71]" and hc = ha_consts
            and sdv = vendor_accepts and e = "fresh (unit_on 5 5)" and m = DRY] k1 m5
  have "async_set_temperature ha_consts vendor_accepts (fresh (unit_on 5 5))
       [''temperature'' \<mapsto> PFloat 71] =
     (Some (UpdateFailed ''Invalid hvac_mode:  %s'' None), fresh (unit_on 5 5))"
    by simp
  moreover
  from set_temperature_outcomes
         [where kwargs = "[''temperature'' \<mapsto> PFloat 71]" and hc = ha_consts
            and sdv = vendor_accepts and e = "fresh (unit_on 9 9)" and err = "KeyError 9"]
       k1 m9
  have "async_set_temperature ha_consts vendor_accepts (fresh (unit_on 9 9))
       [''temperature'' \<mapsto> PFloat 71] =
     (Some (KeyError 9), fresh (unit_on 9 9))"
    by simp
  moreover
  from set_temperature_outcomes
         [where kwargs = "[''temperature'' \<mapsto> PFloat 71]" and hc = ha_consts
            and sdv = vendor_raises and e = "fresh (unit_on 2 2)" and t = "PFloat 71"
            and p = "''setpoint_air_cool''" and x = "VendorException 0"] k1 p2 v c
  have "async_set_temperature ha_consts vendor_raises (fresh (unit_on 2 2))
       [''temperature'' \<mapsto> PFloat 71] =
     (Some (UpdateFailed ''set_temperature update failed'' (Some (VendorException 0))),
      (fresh (unit_on 2 2))\<lparr>calls := [(''setpoint_air_cool'', PFloat 71)]\<rparr>)"
    by simp
  moreover
  from set_temperature_outcomes
         [where kwargs = "[''temperature'' \<mapsto> PFloat 71]" and hc = ha_consts
            and sdv = vendor_cancelled and e = "fresh (unit_on 2 2)" and t = "PFloat 71"
            and p = "''setpoint_air_cool''" and x = "VendorBaseException 0"] k1 p2 w c
  have "async_set_temperature ha_consts vendor_cancelled (fresh (unit_on 2 2))
       [''temperature'' \<mapsto> PFloat 71] =
     (Some (VendorBaseException 0),
      (fresh (unit_on 2 2))\<lparr>calls := [(''setpoint_air_cool'', PFloat 71)]\<rparr>)"
    by simp
  ultimately show ?thesis by simp
qed

end
